theory Spec2Isabelle
  imports Main
begin

section \<open>JavaScript values at the role checks\<close>

text \<open>
  A role arrives either in the verified token's claims or in a JSON request body. The
  scalar JSON forms are modelled, with \<open>JUndefined\<close> for an absent field; role numbers
  are integers, as the \<open>Account_Role INT\<close> column they come from. Arrays and objects in
  a role field are not modelled.
\<close>

datatype jsval = JUndefined | JNull | JBool bool | JNum int | JStr string

text \<open>The operand test of \<open>!v\<close>.\<close>

fun falsy :: "jsval \<Rightarrow> bool" where
  "falsy JUndefined = True"
| "falsy JNull = True"
| "falsy (JBool b) = (\<not> b)"
| "falsy (JNum n) = (n = 0)"
| "falsy (JStr s) = (s = [])"

text \<open>
  The value of \<open>typeof x === 'number' ? x : ROLE_HIERARCHY[x]\<close> is a number, \<open>undefined\<close>,
  or one of the members every object literal inherits from \<open>Object.prototype\<close>, kept here
  with the string it converts to in a comparison.
\<close>

datatype jsrank = RNum int | RUndefined | RObject string

fun rank_falsy :: "jsrank \<Rightarrow> bool" where
  "rank_falsy (RNum n) = (n = 0)"
| "rank_falsy RUndefined = True"
| "rank_falsy (RObject s) = False"

definition object_prototype_methods :: "string list" where
  "object_prototype_methods =
     [''__defineGetter__'', ''__defineSetter__'', ''hasOwnProperty'', ''__lookupGetter__'',
      ''__lookupSetter__'', ''isPrototypeOf'', ''propertyIsEnumerable'', ''toString'',
      ''valueOf'', ''toLocaleString'']"

text \<open>Reading property \<open>k\<close> of an object literal whose own properties are \<open>tbl\<close>.\<close>

definition js_get :: "(string \<times> int) list \<Rightarrow> string \<Rightarrow> jsrank" where
  "js_get tbl k =
     (case map_of tbl k of
        Some n \<Rightarrow> RNum n
      | None \<Rightarrow>
          if k = ''__proto__'' then RObject ''[object Object]''
          else if k = ''constructor'' then RObject ''function Object() { [native code] }''
          else if k \<in> set object_prototype_methods
            then RObject (''function '' @ k @ ''() { [native code] }'')
          else RUndefined)"

text \<open>The names that every object literal answers to without having them as own properties.\<close>

definition inherited_names :: "string list" where
  "inherited_names = ''__proto__'' # ''constructor'' # object_prototype_methods"

text \<open>
  The property key of a value that is not a number is its string conversion; a number
  never reaches the table, because the \<open>typeof\<close> test takes it as the rank.
\<close>

definition rank_of :: "(string \<times> int) list \<Rightarrow> jsval \<Rightarrow> jsrank" where
  "rank_of tbl v =
     (case v of
        JNum n \<Rightarrow> RNum n
      | JStr s \<Rightarrow> js_get tbl s
      | JUndefined \<Rightarrow> js_get tbl ''undefined''
      | JNull \<Rightarrow> js_get tbl ''null''
      | JBool b \<Rightarrow> js_get tbl (if b then ''true'' else ''false''))"

text \<open>
  The relational operators: two numbers compare as numbers, two objects by the code units
  of their string conversions, and every other pair involves \<open>NaN\<close> and is false.
\<close>

fun str_less :: "string \<Rightarrow> string \<Rightarrow> bool" where
  "str_less [] [] = False"
| "str_less [] (y # ys) = True"
| "str_less (x # xs) [] = False"
| "str_less (x # xs) (y # ys) =
     ((of_char x :: nat) < of_char y \<or> (x = y \<and> str_less xs ys))"

fun js_lt :: "jsrank \<Rightarrow> jsrank \<Rightarrow> bool" where
  "js_lt (RNum a) (RNum b) = (a < b)"
| "js_lt (RObject s) (RObject t) = str_less s t"
| "js_lt _ _ = False"

definition js_gt :: "jsrank \<Rightarrow> jsrank \<Rightarrow> bool" where
  "js_gt a b = js_lt b a"

section \<open>Roles\<close>

text \<open>The five roles of the hierarchy, with the name and the number each is written as.\<close>

datatype role_name = User | Moderator | Admin | SuperAdmin | Owner

fun role_key :: "role_name \<Rightarrow> string" where
  "role_key User = ''User''"
| "role_key Moderator = ''Moderator''"
| "role_key Admin = ''Admin''"
| "role_key SuperAdmin = ''SuperAdmin''"
| "role_key Owner = ''Owner''"

fun role_number :: "role_name \<Rightarrow> int" where
  "role_number User = 1"
| "role_number Moderator = 2"
| "role_number Admin = 3"
| "role_number SuperAdmin = 4"
| "role_number Owner = 5"

section \<open>Requests and responses\<close>

record jwt_claims =
  role :: jsval

datatype id_param = IdInt int | IdMalformed

record body =
  firstname :: "string option"
  lastname :: "string option"
  email :: "string option"
  username :: "string option"
  phone :: "string option"
  role :: jsval
  password :: jsval

record request =
  claims :: "jwt_claims option"
  id :: id_param
  body :: body

section \<open>The minimum-role middleware (adminAuth.ts)\<close>

definition adminAuth_ROLE_HIERARCHY :: "(string \<times> int) list" where
  "adminAuth_ROLE_HIERARCHY =
     [(''User'', 1), (''Moderator'', 2), (''Admin'', 3), (''SuperAdmin'', 4), (''Owner'', 5)]"

datatype gate = Next | Rejected nat string

definition requireRole :: "role_name \<Rightarrow> request \<Rightarrow> gate" where
  "requireRole minRole req =
     (case claims req of
        None \<Rightarrow> Rejected 401 ''Missing authentication''
      | Some c \<Rightarrow>
          if falsy (jwt_claims.role c) then Rejected 401 ''Missing authentication''
          else
            let userRole = jwt_claims.role c;
                userRank = rank_of adminAuth_ROLE_HIERARCHY userRole;
                minRank = js_get adminAuth_ROLE_HIERARCHY (role_key minRole)
            in if rank_falsy userRank \<or> js_lt userRank minRank
               then Rejected 403 ''Access denied: insufficient privileges''
               else Next)"

definition requireAdmin :: "request \<Rightarrow> gate" where
  "requireAdmin = requireRole Admin"

section \<open>The database (schema script)\<close>

text \<open>
  Rows of the three tables, with the columns of the \<open>CREATE TABLE\<close> statements.
  Timestamps are integers. The serial keys come from one counter per table.
\<close>

record account =
  Account_ID :: int
  FirstName :: string
  LastName :: string
  Username :: string
  Email :: string
  Email_Verified :: bool
  Phone :: string
  Phone_Verified :: bool
  Account_Role :: int
  Account_Status :: string
  Created_At :: int
  Updated_At :: int

record account_credential =
  Credential_ID :: int
  Account_ID :: int
  Salted_Hash :: string
  Salt :: "string option"

record verification_code =
  code_id :: int
  account_id :: int
  code_type :: string
  code :: string
  expires_at :: int
  attempts :: int
  created_at :: int
  used_at :: "int option"

record database =
  Account :: "account list"
  Account_seq :: int
  Account_Credential :: "account_credential list"
  Account_Credential_seq :: int
  verification_codes :: "verification_code list"
  verification_codes_seq :: int

datatype db_error =
    NotNullViolation | UniqueViolation | StringTooLong | InvalidInteger
  | IntegerOutOfRange | CheckViolation | ForeignKeyViolation | NoConflictConstraint

text \<open>
  Storing into \<open>VARCHAR(n)\<close>: a longer string is an error unless the excess is all
  spaces, which are cut off.
\<close>

definition varchar :: "nat \<Rightarrow> string \<Rightarrow> db_error + string" where
  "varchar n s =
     (if length s \<le> n then Inr s
      else if list_all (\<lambda>c. c = CHR '' '') (drop n s) then Inr (take n s)
      else Inl StringTooLong)"

definition int4_ok :: "int \<Rightarrow> bool" where
  "int4_ok n = (- 2147483648 \<le> n \<and> n \<le> 2147483647)"

text \<open>
  A rank passed as the parameter of an \<open>INT\<close> column. A number is sent as the text
  JavaScript prints for it: decimal digits, which must fit the column, up to \<open>10^21\<close>,
  and an exponent form, which is not the syntax of an integer, from there on.
  \<open>undefined\<close> is sent as \<open>NULL\<close>, and the text of an inherited member is not an integer.
\<close>

fun int4_param :: "jsrank \<Rightarrow> db_error + int option" where
  "int4_param (RNum n) =
     (if int4_ok n then Inr (Some n)
      else if 1000000000000000000000 \<le> abs n then Inl InvalidInteger
      else Inl IntegerOutOfRange)"
| "int4_param RUndefined = Inr None"
| "int4_param (RObject s) = Inl InvalidInteger"

fun id_param_int4 :: "id_param \<Rightarrow> db_error + int" where
  "id_param_int4 (IdInt i) = (if int4_ok i then Inr i else Inl IntegerOutOfRange)"
| "id_param_int4 IdMalformed = Inl InvalidInteger"

text \<open>
  A text parameter bound for a \<open>VARCHAR(n)\<close> column: \<open>NULL\<close> stays \<open>NULL\<close>, a string is
  cut or refused by its length.
\<close>

definition text_param :: "nat \<Rightarrow> string option \<Rightarrow> db_error + string option" where
  "text_param n v =
     (case v of
        None \<Rightarrow> Inr None
      | Some s \<Rightarrow> (case varchar n s of Inl e \<Rightarrow> Inl e | Inr s' \<Rightarrow> Inr (Some s')))"

text \<open>The \<open>NOT NULL\<close> columns of \<open>Account\<close> on a row about to be stored.\<close>

definition Account_row ::
  "int \<Rightarrow> string option \<Rightarrow> string option \<Rightarrow> string option \<Rightarrow> string option \<Rightarrow>
   string option \<Rightarrow> int option \<Rightarrow> string \<Rightarrow> int \<Rightarrow> db_error + account" where
  "Account_row key fn ln em un ph rl st now =
     (case (fn, ln, em, un, ph, rl) of
        (Some fn', Some ln', Some em', Some un', Some ph', Some r) \<Rightarrow>
          Inr \<lparr> account.Account_ID = key, FirstName = fn', LastName = ln', Username = un',
                Email = em', Email_Verified = False, Phone = ph', Phone_Verified = False,
                Account_Role = r, Account_Status = st, Created_At = now, Updated_At = now \<rparr>
      | _ \<Rightarrow> Inl NotNullViolation)"

text \<open>\<open>UNIQUE\<close> on the key, Username, Email and Phone.\<close>

definition Account_unique :: "account \<Rightarrow> account list \<Rightarrow> bool" where
  "Account_unique a rows =
     (account.Account_ID a \<notin> set (map account.Account_ID rows) \<and>
      Username a \<notin> set (map Username rows) \<and>
      Email a \<notin> set (map Email rows) \<and>
      Phone a \<notin> set (map Phone rows))"

text \<open>
  \<open>INSERT INTO Account (FirstName, LastName, Email, Username, Phone, Account_Role,
  Account_Status) VALUES (..., 'active') RETURNING ...\<close>. A parameter that is not an
  integer, or a string too long for its column, fails the statement before a key is
  drawn. After that the key is drawn from the sequence, which keeps the draw when the
  row is refused for a \<open>NULL\<close> or a duplicate.
\<close>

definition insert_Account ::
  "string option \<Rightarrow> string option \<Rightarrow> string option \<Rightarrow> string option \<Rightarrow> string option \<Rightarrow>
   jsrank \<Rightarrow> int \<Rightarrow> database \<Rightarrow> (db_error + account) \<times> database" where
  "insert_Account fn ln em un ph targetRank now db =
     (case int4_param targetRank of Inl e \<Rightarrow> (Inl e, db) | Inr rl \<Rightarrow>
     (case text_param 255 fn of Inl e \<Rightarrow> (Inl e, db) | Inr fn' \<Rightarrow>
     (case text_param 255 ln of Inl e \<Rightarrow> (Inl e, db) | Inr ln' \<Rightarrow>
     (case text_param 255 em of Inl e \<Rightarrow> (Inl e, db) | Inr em' \<Rightarrow>
     (case text_param 255 un of Inl e \<Rightarrow> (Inl e, db) | Inr un' \<Rightarrow>
     (case text_param 15 ph of Inl e \<Rightarrow> (Inl e, db) | Inr ph' \<Rightarrow>
     (case varchar 20 ''active'' of Inl e \<Rightarrow> (Inl e, db) | Inr st \<Rightarrow>
        (let key = Account_seq db; db1 = db\<lparr>Account_seq := key + 1\<rparr>
         in (case Account_row key fn' ln' em' un' ph' rl st now of
               Inl e \<Rightarrow> (Inl e, db1)
             | Inr a \<Rightarrow>
                 if Account_unique a (Account db)
                 then (Inr a, db1\<lparr>Account := Account db @ [a]\<rparr>)
                 else (Inl UniqueViolation, db1))))))))))"

text \<open>\<open>UPDATE Account SET Account_Role = $1, Updated_At = NOW() WHERE Account_ID = $2 RETURNING ...\<close>\<close>

definition update_Account_Role ::
  "jsrank \<Rightarrow> id_param \<Rightarrow> int \<Rightarrow> database \<Rightarrow> db_error + (account list \<times> database)" where
  "update_Account_Role targetRank i now db =
     (case int4_param targetRank of Inl e \<Rightarrow> Inl e | Inr rl \<Rightarrow>
      case id_param_int4 i of Inl e \<Rightarrow> Inl e | Inr k \<Rightarrow>
        let hit = filter (\<lambda>a. account.Account_ID a = k) (Account db)
        in if hit = [] then Inr ([], db)
           else case rl of
                  None \<Rightarrow> Inl NotNullViolation
                | Some r \<Rightarrow>
                    let upd = (\<lambda>a. a\<lparr>Account_Role := r, Updated_At := now\<rparr>)
                    in Inr (map upd hit,
                            db\<lparr>Account := map (\<lambda>a. if account.Account_ID a = k then upd a else a)
                                           (Account db)\<rparr>))"

text \<open>
  \<open>UPDATE Account SET Account_Status = 'inactive', Updated_At = NOW()
  WHERE Account_ID = $1 RETURNING Account_ID\<close>
\<close>

definition update_Account_Status_inactive ::
  "id_param \<Rightarrow> int \<Rightarrow> database \<Rightarrow> db_error + (int list \<times> database)" where
  "update_Account_Status_inactive i now db =
     (case id_param_int4 i of Inl e \<Rightarrow> Inl e | Inr k \<Rightarrow>
        let upd = (\<lambda>a. a\<lparr>Account_Status := ''inactive'', Updated_At := now\<rparr>)
        in Inr (map account.Account_ID (filter (\<lambda>a. account.Account_ID a = k) (Account db)),
                db\<lparr>Account := map (\<lambda>a. if account.Account_ID a = k then upd a else a)
                               (Account db)\<rparr>))"

text \<open>\<open>SELECT Account_ID FROM Account WHERE Account_ID = $1\<close>\<close>

definition select_Account_ID :: "id_param \<Rightarrow> database \<Rightarrow> db_error + int list" where
  "select_Account_ID i db =
     (case id_param_int4 i of Inl e \<Rightarrow> Inl e | Inr k \<Rightarrow>
        Inr (map account.Account_ID (filter (\<lambda>a. account.Account_ID a = k) (Account db))))"

text \<open>
  The unique indexes of \<open>Account_Credential\<close>: the primary key \<open>Credential_ID\<close> and no
  other; \<open>Account_ID\<close> is declared \<open>INT NOT NULL\<close> with a foreign key only.
\<close>

definition Account_Credential_unique_indexes :: "string list list" where
  "Account_Credential_unique_indexes = [[''Credential_ID'']]"

text \<open>
  \<open>INSERT INTO Account_Credential (Account_ID, Salted_Hash, Salt) VALUES ($1, $2, $3)
  ON CONFLICT (target) DO UPDATE SET Salted_Hash = $2, Salt = $3\<close>. The conflict target
  must name the columns of a unique index of the table, or the statement is refused
  whatever the rows are. With the primary key as target, the new row conflicts when its
  drawn key is already there.
\<close>

definition insert_Account_Credential_on_conflict ::
  "string list \<Rightarrow> id_param \<Rightarrow> string \<Rightarrow> string \<Rightarrow> database \<Rightarrow> db_error + database" where
  "insert_Account_Credential_on_conflict target i hash salt db =
     (if target \<notin> set Account_Credential_unique_indexes then Inl NoConflictConstraint
      else case id_param_int4 i of Inl e \<Rightarrow> Inl e | Inr k \<Rightarrow>
           case varchar 255 hash of Inl e \<Rightarrow> Inl e | Inr h \<Rightarrow>
           case varchar 255 salt of Inl e \<Rightarrow> Inl e | Inr s \<Rightarrow>
             let key = Account_Credential_seq db;
                 db1 = db\<lparr>Account_Credential_seq := key + 1\<rparr>
             in if key \<in> set (map Credential_ID (Account_Credential db))
                then Inr (db1\<lparr>Account_Credential :=
                            map (\<lambda>c. if Credential_ID c = key
                                     then c\<lparr>Salted_Hash := h, Salt := Some s\<rparr> else c)
                                (Account_Credential db)\<rparr>)
                else if k \<notin> set (map account.Account_ID (Account db))
                then Inl ForeignKeyViolation
                else Inr (db1\<lparr>Account_Credential := Account_Credential db @
                            [\<lparr> Credential_ID = key, account_credential.Account_ID = k,
                               Salted_Hash = h, Salt = Some s \<rparr>]\<rparr>))"

section \<open>The admin controller (adminController.ts)\<close>

definition adminController_ROLE_HIERARCHY :: "(string \<times> int) list" where
  "adminController_ROLE_HIERARCHY =
     [(''User'', 1), (''Moderator'', 2), (''Admin'', 3), (''SuperAdmin'', 4), (''Owner'', 5)]"

text \<open>
  A handler answers with \<open>sendSuccess\<close> (a message and, where the statement returns one,
  the row) or with \<open>sendError\<close> (status and message), and leaves a database. Reading
  \<open>req.claims.role\<close> with no claims throws inside the handler's \<open>try\<close>, whose \<open>catch\<close>
  answers 500, as it does for every error of a statement.
\<close>

datatype response = SendSuccess string "account option" | SendError nat string

text \<open>The part of \<open>createUser\<close> after the privilege check.\<close>

definition createUser_insert ::
  "request \<Rightarrow> jsrank \<Rightarrow> int \<Rightarrow> database \<Rightarrow> response \<times> database" where
  "createUser_insert req targetRank now db =
     (let b = body req
      in case insert_Account (firstname b) (lastname b) (email b) (username b) (phone b)
                targetRank now db of
           (Inl e, db') \<Rightarrow> (SendError 500 ''Failed to create user'', db')
         | (Inr a, db') \<Rightarrow> (SendSuccess ''User created successfully'' (Some a), db'))"

definition createUser :: "request \<Rightarrow> int \<Rightarrow> database \<Rightarrow> response \<times> database" where
  "createUser req now db =
     (case claims req of
        None \<Rightarrow> (SendError 500 ''Failed to create user'', db)
      | Some c \<Rightarrow>
          let creatorRole = jwt_claims.role c;
              creatorRank = rank_of adminController_ROLE_HIERARCHY creatorRole;
              targetRank = rank_of adminController_ROLE_HIERARCHY (body.role (body req))
          in if js_gt targetRank creatorRank
             then (SendError 403 ''You cannot create a user with a higher role than yours'', db)
             else createUser_insert req targetRank now db)"

text \<open>The part of \<open>changeUserRole\<close> after its checks.\<close>

definition changeUserRole_update ::
  "request \<Rightarrow> jsrank \<Rightarrow> int \<Rightarrow> database \<Rightarrow> response \<times> database" where
  "changeUserRole_update req targetRank now db =
     (case update_Account_Role targetRank (id req) now db of
        Inl e \<Rightarrow> (SendError 500 ''Failed to change user role'', db)
      | Inr (rows, db') \<Rightarrow>
          (case rows of
             [] \<Rightarrow> (SendError 404 ''User not found'', db')
           | a # _ \<Rightarrow> (SendSuccess ''User role updated successfully'' (Some a), db')))"

definition changeUserRole :: "request \<Rightarrow> int \<Rightarrow> database \<Rightarrow> response \<times> database" where
  "changeUserRole req now db =
     (case claims req of
        None \<Rightarrow> (SendError 500 ''Failed to change user role'', db)
      | Some c \<Rightarrow>
          let role = body.role (body req);
              adminRole = jwt_claims.role c
          in if falsy role then (SendError 400 ''Role is required'', db)
             else
               let adminRank = rank_of adminController_ROLE_HIERARCHY adminRole;
                   targetRank = rank_of adminController_ROLE_HIERARCHY role
               in if rank_falsy targetRank \<or> js_lt targetRank (RNum 1) \<or> js_gt targetRank (RNum 5)
                  then (SendError 400 ''Invalid role specified'', db)
                  else if js_gt targetRank adminRank
                  then (SendError 403 ''You cannot assign a role higher than your own'', db)
                  else changeUserRole_update req targetRank now db)"

definition deleteUser :: "request \<Rightarrow> int \<Rightarrow> database \<Rightarrow> response \<times> database" where
  "deleteUser req now db =
     (case update_Account_Status_inactive (id req) now db of
        Inl e \<Rightarrow> (SendError 500 ''Failed to delete user'', db)
      | Inr (rows, db') \<Rightarrow>
          if length rows = 0 then (SendError 404 ''User not found'', db')
          else (SendSuccess ''User deleted successfully'' None, db'))"

text \<open>
  \<open>generateSaltedHash\<close> is imported from a module outside these sources: it is a
  parameter here, giving the salt and the hash, or nothing when it throws.
\<close>

definition resetUserPassword ::
  "(jsval \<Rightarrow> (string \<times> string) option) \<Rightarrow> request \<Rightarrow> database \<Rightarrow> response \<times> database" where
  "resetUserPassword generateSaltedHash req db =
     (let password = body.password (body req)
      in if falsy password then (SendError 400 ''Password is required'', db)
         else case select_Account_ID (id req) db of
                Inl e \<Rightarrow> (SendError 500 ''Failed to reset password'', db)
              | Inr userCheck \<Rightarrow>
                  if length userCheck = 0 then (SendError 404 ''User not found'', db)
                  else case generateSaltedHash password of
                         None \<Rightarrow> (SendError 500 ''Failed to reset password'', db)
                       | Some (salt, hash) \<Rightarrow>
                           (case insert_Account_Credential_on_conflict [''Account_ID'']
                                   (id req) hash salt db of
                              Inl e \<Rightarrow> (SendError 500 ''Failed to reset password'', db)
                            | Inr db' \<Rightarrow> (SendSuccess ''Password reset successfully'' None, db')))"

text \<open>
  A route of the admin router: the handler runs only when the middleware before it
  calls \<open>next()\<close>; otherwise the middleware's answer is the response and nothing is stored.
\<close>

definition guarded ::
  "(request \<Rightarrow> gate) \<Rightarrow> (request \<Rightarrow> database \<Rightarrow> response \<times> database) \<Rightarrow>
   request \<Rightarrow> database \<Rightarrow> response \<times> database" where
  "guarded mw handler req db =
     (case mw req of
        Next \<Rightarrow> handler req db
      | Rejected status msg \<Rightarrow> (SendError status msg, db))"

section \<open>The table of verification codes (schema script)\<close>

text \<open>The class \<open>[0-9]\<close> of the pattern \<open>'^[0-9]+$'\<close>.\<close>

definition is_digit :: "char \<Rightarrow> bool" where
  "is_digit c = ((48::nat) \<le> of_char c \<and> of_char c \<le> (57::nat))"

text \<open>\<open>CONSTRAINT valid_code CHECK (LENGTH(code) = 6 AND code ~ '^[0-9]+$')\<close>\<close>

definition valid_code :: "string \<Rightarrow> bool" where
  "valid_code c = (length c = 6 \<and> c \<noteq> [] \<and> list_all is_digit c)"

text \<open>\<open>CHECK (code_type IN ('email', 'phone'))\<close>\<close>

definition code_type_check :: "string \<Rightarrow> bool" where
  "code_type_check t = (t = ''email'' \<or> t = ''phone'')"

text \<open>
  Storing a row of \<open>verification_codes\<close> for an account, with a type, a code and an
  expiry; the other columns take their defaults. The columns are \<open>VARCHAR(10)\<close> and
  \<open>VARCHAR(6)\<close>, and a string too long for its column fails the statement before a key
  is drawn. Then both \<open>CHECK\<close>s must hold and the account must exist.
\<close>

definition insert_verification_codes ::
  "int \<Rightarrow> string \<Rightarrow> string \<Rightarrow> int \<Rightarrow> int \<Rightarrow> database \<Rightarrow>
   (db_error + verification_code) \<times> database" where
  "insert_verification_codes aid ctype cd expires now db =
     (case varchar 10 ctype of Inl e \<Rightarrow> (Inl e, db) | Inr t \<Rightarrow>
     (case varchar 6 cd of Inl e \<Rightarrow> (Inl e, db) | Inr c \<Rightarrow>
        (let key = verification_codes_seq db; db1 = db\<lparr>verification_codes_seq := key + 1\<rparr>
         in if \<not> code_type_check t \<or> \<not> valid_code c then (Inl CheckViolation, db1)
            else if key \<in> set (map code_id (verification_codes db))
            then (Inl UniqueViolation, db1)
            else if aid \<notin> set (map account.Account_ID (Account db))
            then (Inl ForeignKeyViolation, db1)
            else
              let v = \<lparr> code_id = key, account_id = aid, code_type = t, code = c,
                        expires_at = expires, attempts = 0, created_at = now, used_at = None \<rparr>
              in (Inr v, db1\<lparr>verification_codes := verification_codes db @ [v]\<rparr>))))"

section \<open>The store of verification records\<close>

text \<open>
  Modelled from the spec: the verification record of the data model (subject, purpose,
  secret, issue and expiry times, failed attempts, consumption time). The controller
  that issues and consumes codes is not among the sources; only the table is.
\<close>

datatype purpose = EmailVerify | PhoneVerify | PasswordReset

record verification_record =
  subjectId :: int
  purpose :: purpose
  secret :: string
  issuedAt :: int
  expiresAt :: int
  attempts :: nat
  consumedAt :: "int option"

text \<open>
  Modelled from the spec: an active record is one that is neither consumed nor expired,
  and a record is expired when the time is past \<open>expiresAt\<close>.
\<close>

definition active :: "int \<Rightarrow> verification_record \<Rightarrow> bool" where
  "active now r = (consumedAt r = None \<and> \<not> expiresAt r < now)"

definition record_key :: "verification_record \<Rightarrow> int \<times> purpose" where
  "record_key r = (subjectId r, purpose r)"

text \<open>
  Modelled from the spec: \<open>CodeStore.issue(subjectId, purpose, secret, ttl)\<close>, which
  overwrites any existing active record for (subjectId, purpose) and then stores the new
  record with \<open>expiresAt = now + ttl\<close>, \<open>attempts = 0\<close> and \<open>consumedAt = null\<close>.
\<close>

definition issue ::
  "int \<Rightarrow> purpose \<Rightarrow> string \<Rightarrow> int \<Rightarrow> int \<Rightarrow> verification_record list \<Rightarrow>
   verification_record \<times> verification_record list" where
  "issue s p sec ttl now store =
     (let new = \<lparr> subjectId = s, purpose = p, secret = sec, issuedAt = now,
                  expiresAt = now + ttl, attempts = 0, consumedAt = None \<rparr>
      in (new, filter (\<lambda>r. \<not> (record_key r = (s, p) \<and> active now r)) store @ [new]))"

text \<open>
  Modelled from the spec: the invariant of the data model, at most one active record
  for each (subjectId, purpose) at time \<open>t\<close>.
\<close>

definition one_active_per_key :: "int \<Rightarrow> verification_record list \<Rightarrow> bool" where
  "one_active_per_key t store = distinct (map record_key (filter (active t) store))"

section \<open>Sample data\<close>

definition alice :: account where
  "alice = \<lparr> account.Account_ID = 1, FirstName = ''Alice'', LastName = ''Ng'',
             Username = ''alice'', Email = ''alice@example.org'', Email_Verified = True,
             Phone = ''2065550101'', Phone_Verified = False, Account_Role = 3,
             Account_Status = ''active'', Created_At = 10, Updated_At = 10 \<rparr>"

definition bob :: account where
  "bob = \<lparr> account.Account_ID = 2, FirstName = ''Bob'', LastName = ''Roy'',
           Username = ''bob'', Email = ''bob@example.org'', Email_Verified = False,
           Phone = ''2065550102'', Phone_Verified = False, Account_Role = 1,
           Account_Status = ''pending'', Created_At = 20, Updated_At = 20 \<rparr>"

definition bob_credential :: account_credential where
  "bob_credential = \<lparr> Credential_ID = 1, account_credential.Account_ID = 2,
                      Salted_Hash = ''5e884898da28'', Salt = Some ''a1b2c3'' \<rparr>"

definition sample_db :: database where
  "sample_db = \<lparr> Account = [alice, bob], Account_seq = 3,
                 Account_Credential = [bob_credential], Account_Credential_seq = 2,
                 verification_codes = [], verification_codes_seq = 1 \<rparr>"

definition sample_request :: "jsval \<Rightarrow> jsval \<Rightarrow> id_param \<Rightarrow> request" where
  "sample_request actor target i =
     \<lparr> claims = Some \<lparr> jwt_claims.role = actor \<rparr>, id = i,
       body = \<lparr> firstname = Some ''Carol'', lastname = Some ''Diaz'',
                email = Some ''carol@example.org'', username = Some ''carol'',
                phone = Some ''2065550103'', body.role = target,
                password = JStr ''NewPass123!'' \<rparr> \<rparr>"

definition sample_hash :: "jsval \<Rightarrow> (string \<times> string) option" where
  "sample_hash pw = Some (''c0ffee'', ''9f86d081884c'')"

definition sample_record :: "int \<Rightarrow> purpose \<Rightarrow> string \<Rightarrow> verification_record" where
  "sample_record s p sec =
     \<lparr> subjectId = s, purpose = p, secret = sec, issuedAt = 0, expiresAt = 600,
       attempts = 0, consumedAt = None \<rparr>"

section \<open>Ranks of the role tables\<close>

lemma minRank_role_number:
  "js_get adminAuth_ROLE_HIERARCHY (role_key m) = RNum (role_number m)"
  by (cases m) (simp_all add: js_get_def adminAuth_ROLE_HIERARCHY_def)

lemma controller_rank_role_number:
  "js_get adminController_ROLE_HIERARCHY (role_key m) = RNum (role_number m)"
  by (cases m) (simp_all add: js_get_def adminController_ROLE_HIERARCHY_def)

lemma role_number_bounds: "1 \<le> role_number m \<and> role_number m \<le> 5"
  by (cases m) simp_all

lemma middleware_rank_truthy:
  assumes "rank_of adminAuth_ROLE_HIERARCHY v = RNum r" and "r \<noteq> 0"
  shows "\<not> falsy v"
  using assms
  by (cases v)
     (auto simp: rank_of_def js_get_def adminAuth_ROLE_HIERARCHY_def split: if_splits)

lemma controller_rank_truthy:
  assumes "rank_of adminController_ROLE_HIERARCHY v = RNum r" and "r \<noteq> 0"
  shows "\<not> falsy v"
  using assms
  by (cases v)
     (auto simp: rank_of_def js_get_def adminController_ROLE_HIERARCHY_def split: if_splits)

section \<open>The privilege check of createUser and changeUserRole\<close>

text \<open>
  Claim C1. When the actor's role and the target role both resolve to one of the ranks
  1 to 5, \<open>createUser\<close> and \<open>changeUserRole\<close> answer 403 and store nothing exactly when
  the target rank is strictly greater than the actor's rank; when it is less or equal,
  neither answers 403 and each goes on to its statement with the target rank.
\<close>

theorem privilege_check_by_rank:
  assumes "claims req = Some c"
    and "rank_of adminController_ROLE_HIERARCHY (jwt_claims.role c) = RNum a"
    and "1 \<le> a \<and> a \<le> 5"
    and "rank_of adminController_ROLE_HIERARCHY (body.role (body req)) = RNum t"
    and "1 \<le> t \<and> t \<le> 5"
  shows "(a < t \<longrightarrow>
            createUser req now db =
              (SendError 403 ''You cannot create a user with a higher role than yours'', db) \<and>
            changeUserRole req now db =
              (SendError 403 ''You cannot assign a role higher than your own'', db)) \<and>
         (t \<le> a \<longrightarrow>
            createUser req now db = createUser_insert req (RNum t) now db \<and>
            changeUserRole req now db = changeUserRole_update req (RNum t) now db \<and>
            (\<forall>msg. fst (createUser req now db) \<noteq> SendError 403 msg) \<and>
            (\<forall>msg. fst (changeUserRole req now db) \<noteq> SendError 403 msg))"
proof -
  have tr: "\<not> falsy (body.role (body req))"
    using assms(4,5) by (intro controller_rank_truthy [of _ t]) auto
  have cu: "createUser req now db =
      (if a < t then (SendError 403 ''You cannot create a user with a higher role than yours'', db)
       else createUser_insert req (RNum t) now db)"
    using assms by (simp add: createUser_def js_gt_def)
  have cr: "changeUserRole req now db =
      (if a < t then (SendError 403 ''You cannot assign a role higher than your own'', db)
       else changeUserRole_update req (RNum t) now db)"
    using assms tr by (simp add: changeUserRole_def js_gt_def)
  have i: "\<forall>msg. fst (createUser_insert req (RNum t) now db) \<noteq> SendError 403 msg"
    by (auto simp: createUser_insert_def Let_def split: prod.splits sum.splits)
  have u: "\<forall>msg. fst (changeUserRole_update req (RNum t) now db) \<noteq> SendError 403 msg"
    by (auto simp: changeUserRole_update_def split: prod.splits sum.splits list.splits)
  show ?thesis
    using i u by (simp add: cu cr)
qed

text \<open>
  An Admin given by number asking for SuperAdmin by name is refused by both handlers; an
  Admin given by name asking for rank 3 is not.
\<close>

theorem privilege_check_by_rank_witness:
  "createUser (sample_request (JNum 3) (JStr ''SuperAdmin'') (IdInt 2)) 50 sample_db =
     (SendError 403 ''You cannot create a user with a higher role than yours'', sample_db) \<and>
   changeUserRole (sample_request (JNum 3) (JStr ''SuperAdmin'') (IdInt 2)) 50 sample_db =
     (SendError 403 ''You cannot assign a role higher than your own'', sample_db) \<and>
   fst (createUser (sample_request (JStr ''Admin'') (JNum 3) (IdInt 2)) 50 sample_db) \<noteq>
     SendError 403 ''You cannot create a user with a higher role than yours'' \<and>
   fst (changeUserRole (sample_request (JStr ''Admin'') (JNum 3) (IdInt 2)) 50 sample_db) \<noteq>
     SendError 403 ''You cannot assign a role higher than your own''"
proof -
  let ?hi = "sample_request (JNum 3) (JStr ''SuperAdmin'') (IdInt 2)"
  let ?eq = "sample_request (JStr ''Admin'') (JNum 3) (IdInt 2)"
  have h1: "claims ?hi = Some \<lparr> jwt_claims.role = JNum 3 \<rparr>"
    by (simp add: sample_request_def)
  have h2: "rank_of adminController_ROLE_HIERARCHY
              (jwt_claims.role \<lparr> jwt_claims.role = JNum 3 \<rparr>) = RNum 3"
    by (simp add: rank_of_def)
  have h3: "rank_of adminController_ROLE_HIERARCHY (body.role (body ?hi)) = RNum 4"
    by (simp add: sample_request_def rank_of_def js_get_def adminController_ROLE_HIERARCHY_def)
  have e1: "claims ?eq = Some \<lparr> jwt_claims.role = JStr ''Admin'' \<rparr>"
    by (simp add: sample_request_def)
  have e2: "rank_of adminController_ROLE_HIERARCHY
              (jwt_claims.role \<lparr> jwt_claims.role = JStr ''Admin'' \<rparr>) = RNum 3"
    by (simp add: rank_of_def js_get_def adminController_ROLE_HIERARCHY_def)
  have e3: "rank_of adminController_ROLE_HIERARCHY (body.role (body ?eq)) = RNum 3"
    by (simp add: sample_request_def rank_of_def)
  have r3: "(1::int) \<le> 3 \<and> (3::int) \<le> 5" and r4: "(1::int) \<le> 4 \<and> (4::int) \<le> 5"
    by simp_all
  have hi: "(3::int) < 4 \<longrightarrow>
      createUser ?hi 50 sample_db =
        (SendError 403 ''You cannot create a user with a higher role than yours'', sample_db) \<and>
      changeUserRole ?hi 50 sample_db =
        (SendError 403 ''You cannot assign a role higher than your own'', sample_db)"
    using privilege_check_by_rank [OF h1 h2 r3 h3 r4, of 50 sample_db] by blast
  have eq: "(3::int) \<le> 3 \<longrightarrow>
      (\<forall>msg. fst (createUser ?eq 50 sample_db) \<noteq> SendError 403 msg) \<and>
      (\<forall>msg. fst (changeUserRole ?eq 50 sample_db) \<noteq> SendError 403 msg)"
    using privilege_check_by_rank [OF e1 e2 r3 e3 r3, of 50 sample_db] by blast
  from hi eq show ?thesis by simp
qed

section \<open>A target role that is no rank\<close>

text \<open>
  Claim C2. A missing or unrecognized target role should be refused as invalid input by
  both handlers. \<open>changeUserRole\<close> does so, with 400, for the numbers 0 and 7 and for
  an absent role. \<open>createUser\<close> has no such check: with an Admin as actor it stores an
  account of role 0, answers 403 for role 7, and for an absent role lets the statement
  fail on the \<open>NOT NULL\<close> column and answers 500.
\<close>

theorem createUser_unchecked_target_role:
  "(\<exists>a. createUser (sample_request (JNum 3) (JNum 0) (IdInt 2)) 50 sample_db =
          (SendSuccess ''User created successfully'' (Some a),
           sample_db\<lparr>Account := [alice, bob, a], Account_seq := 4\<rparr>) \<and>
        Account_Role a = 0) \<and>
   createUser (sample_request (JNum 3) (JNum 7) (IdInt 2)) 50 sample_db =
     (SendError 403 ''You cannot create a user with a higher role than yours'', sample_db) \<and>
   fst (createUser (sample_request (JNum 3) JUndefined (IdInt 2)) 50 sample_db) =
     SendError 500 ''Failed to create user'' \<and>
   changeUserRole (sample_request (JNum 3) (JNum 0) (IdInt 2)) 50 sample_db =
     (SendError 400 ''Role is required'', sample_db) \<and>
   changeUserRole (sample_request (JNum 3) (JNum 7) (IdInt 2)) 50 sample_db =
     (SendError 400 ''Invalid role specified'', sample_db) \<and>
   changeUserRole (sample_request (JNum 3) JUndefined (IdInt 2)) 50 sample_db =
     (SendError 400 ''Role is required'', sample_db)"
  by (simp add: createUser_def createUser_insert_def changeUserRole_def sample_request_def
      rank_of_def js_get_def js_gt_def adminController_ROLE_HIERARCHY_def
      object_prototype_methods_def insert_Account_def int4_ok_def Account_row_def
      text_param_def varchar_def Account_unique_def sample_db_def alice_def bob_def)

section \<open>Replacing a credential\<close>

text \<open>
  The statement of \<open>resetUserPassword\<close> names \<open>Account_ID\<close> as its conflict target,
  and the table has no unique index on that column: the statement is refused for every
  request, so the handler never answers with success and never changes the database.
\<close>

lemma resetUserPassword_never_stores:
  "snd (resetUserPassword g req db) = db \<and>
   (\<forall>m u. fst (resetUserPassword g req db) \<noteq> SendSuccess m u)"
  by (auto simp: resetUserPassword_def insert_Account_Credential_on_conflict_def
      Account_Credential_unique_indexes_def Let_def split: sum.splits option.splits)

text \<open>
  Claim C3. Resetting a password should create the subject's credential row when there
  is none and overwrite it otherwise. For account 1, which exists and has no credential
  row, the handler answers 500 and the account still has no row; for account 2, which
  has one, it answers 500 and the row keeps its old hash.
\<close>

theorem resetUserPassword_statement_refused:
  "resetUserPassword sample_hash (sample_request (JNum 3) JUndefined (IdInt 1)) sample_db =
     (SendError 500 ''Failed to reset password'', sample_db) \<and>
   filter (\<lambda>c. account_credential.Account_ID c = 1) (Account_Credential sample_db) = [] \<and>
   resetUserPassword sample_hash (sample_request (JNum 3) JUndefined (IdInt 2)) sample_db =
     (SendError 500 ''Failed to reset password'', sample_db) \<and>
   map Salted_Hash (filter (\<lambda>c. account_credential.Account_ID c = 2)
                      (Account_Credential sample_db)) = [''5e884898da28'']"
  by (simp add: resetUserPassword_def sample_request_def sample_hash_def select_Account_ID_def
      int4_ok_def insert_Account_Credential_on_conflict_def Account_Credential_unique_indexes_def
      sample_db_def alice_def bob_def bob_credential_def)

section \<open>The minimum-role gate\<close>

text \<open>
  Claim C5. For a minimum role \<open>m\<close> and an actor whose role claim resolves to the rank
  \<open>r\<close>, \<open>requireRole m\<close> calls \<open>next()\<close> exactly when \<open>r\<close> is at least the rank of \<open>m\<close>,
  and then the handler runs; otherwise the route answers with an error and the handler
  does not run, so the database is as before. The error is 403 for every rank but the
  number 0, which \<open>!req.claims.role\<close> takes as a missing claim.
\<close>

theorem requireRole_minimum_rank:
  assumes "claims req = Some c"
    and "rank_of adminAuth_ROLE_HIERARCHY (jwt_claims.role c) = RNum r"
  shows "(requireRole m req = Next \<longleftrightarrow> role_number m \<le> r) \<and>
         (role_number m \<le> r \<longrightarrow> guarded (requireRole m) handler req db = handler req db) \<and>
         (r < role_number m \<longrightarrow>
            (\<exists>status msg. guarded (requireRole m) handler req db = (SendError status msg, db)) \<and>
            (r \<noteq> 0 \<longrightarrow>
               requireRole m req = Rejected 403 ''Access denied: insufficient privileges'' \<and>
               guarded (requireRole m) handler req db =
                 (SendError 403 ''Access denied: insufficient privileges'', db)))"
proof (cases "r = 0")
  case True
  then have "falsy (jwt_claims.role c)"
    using assms(2)
    by (cases "jwt_claims.role c")
       (auto simp: rank_of_def js_get_def adminAuth_ROLE_HIERARCHY_def split: if_splits)
  then have eq: "requireRole m req = Rejected 401 ''Missing authentication''"
    using assms(1) by (simp add: requireRole_def)
  show ?thesis
    using True role_number_bounds [of m] by (auto simp: eq guarded_def)
next
  case False
  have t: "\<not> falsy (jwt_claims.role c)"
    using assms(2) False by (rule middleware_rank_truthy)
  have eq: "requireRole m req =
      (if r < role_number m then Rejected 403 ''Access denied: insufficient privileges'' else Next)"
    using assms t False by (simp add: requireRole_def minRank_role_number)
  show ?thesis
    using False by (auto simp: eq guarded_def)
qed

text \<open>
  A SuperAdmin by name passes the Admin gate; a Moderator by number is answered 403 and
  the deletion behind the gate does not happen.
\<close>

theorem requireRole_minimum_rank_witness:
  "requireRole Admin (sample_request (JStr ''SuperAdmin'') JUndefined (IdInt 2)) = Next \<and>
   guarded (requireRole Admin) (\<lambda>r. deleteUser r 99)
     (sample_request (JNum 2) JUndefined (IdInt 2)) sample_db =
     (SendError 403 ''Access denied: insufficient privileges'', sample_db)"
proof -
  have a: "claims (sample_request (JStr ''SuperAdmin'') JUndefined (IdInt 2))
             = Some \<lparr> jwt_claims.role = JStr ''SuperAdmin'' \<rparr>"
    by (simp add: sample_request_def)
  have b: "rank_of adminAuth_ROLE_HIERARCHY
             (jwt_claims.role \<lparr> jwt_claims.role = JStr ''SuperAdmin'' \<rparr>) = RNum 4"
    by (simp add: rank_of_def js_get_def adminAuth_ROLE_HIERARCHY_def)
  have c: "claims (sample_request (JNum 2) JUndefined (IdInt 2))
             = Some \<lparr> jwt_claims.role = JNum 2 \<rparr>"
    by (simp add: sample_request_def)
  have d: "rank_of adminAuth_ROLE_HIERARCHY
             (jwt_claims.role \<lparr> jwt_claims.role = JNum 2 \<rparr>) = RNum 2"
    by (simp add: rank_of_def)
  from requireRole_minimum_rank [OF a b, of Admin]
       requireRole_minimum_rank [OF c d, of Admin "\<lambda>r. deleteUser r 99" sample_db]
  show ?thesis by simp
qed

text \<open>
  Claim C9. A numeric role claim is taken as the rank without a check against 1 to 5:
  every number that is at least the rank of the minimum role passes, so every number
  above 5 passes every gate, and the number 0 is answered 401 as a missing claim.
\<close>

theorem requireRole_numeric_claim_unchecked:
  assumes "claims req = Some c" and "jwt_claims.role c = JNum n"
  shows "(role_number m \<le> n \<longrightarrow> requireRole m req = Next) \<and>
         (5 < n \<longrightarrow> requireRole m req = Next) \<and>
         (n = 0 \<longrightarrow> requireRole m req = Rejected 401 ''Missing authentication'')"
proof -
  have "1 \<le> role_number m \<and> role_number m \<le> 5" by (rule role_number_bounds)
  then show ?thesis
    using assms by (auto simp: requireRole_def rank_of_def minRank_role_number)
qed

theorem requireRole_numeric_claim_unchecked_witness:
  "requireRole Admin (sample_request (JNum 7) JUndefined (IdInt 2)) = Next \<and>
   requireRole Owner (sample_request (JNum 1000) JUndefined (IdInt 2)) = Next \<and>
   requireRole User (sample_request (JNum 0) JUndefined (IdInt 2))
     = Rejected 401 ''Missing authentication''"
  using requireRole_numeric_claim_unchecked
          [of "sample_request (JNum 7) JUndefined (IdInt 2)" "\<lparr> jwt_claims.role = JNum 7 \<rparr>" 7 Admin]
        requireRole_numeric_claim_unchecked
          [of "sample_request (JNum 1000) JUndefined (IdInt 2)"
              "\<lparr> jwt_claims.role = JNum 1000 \<rparr>" 1000 Owner]
        requireRole_numeric_claim_unchecked
          [of "sample_request (JNum 0) JUndefined (IdInt 2)" "\<lparr> jwt_claims.role = JNum 0 \<rparr>" 0 User]
  by (simp add: sample_request_def)

section \<open>The failures of the gate\<close>

text \<open>
  Claim C6, as stated, asks that an unrecognized actor role be always refused and be
  told apart from a recognized rank that is too low. At the Admin gate the unknown name
  \<open>Guest\<close> and the known name \<open>User\<close> get the same answer, status and message; and the
  name \<open>constructor\<close> and the number 7, which are no roles, are not refused at all.
\<close>

theorem unrecognized_and_low_rank_same_answer:
  "requireRole Admin (sample_request (JStr ''Guest'') JUndefined (IdInt 2))
     = Rejected 403 ''Access denied: insufficient privileges'' \<and>
   requireRole Admin (sample_request (JStr ''User'') JUndefined (IdInt 2))
     = Rejected 403 ''Access denied: insufficient privileges'' \<and>
   requireRole Admin (sample_request (JStr ''constructor'') JUndefined (IdInt 2)) = Next \<and>
   requireRole Admin (sample_request (JNum 7) JUndefined (IdInt 2)) = Next"
  by (simp add: requireRole_def sample_request_def rank_of_def js_get_def
      adminAuth_ROLE_HIERARCHY_def object_prototype_methods_def)

text \<open>
  Claim C6, amended. The gate has two failures. Absent claims or an absent (falsy)
  role claim are answered 401. A role name that is neither one of the five role names
  nor a name inherited from \<open>Object.prototype\<close> is always refused, and a rank below the
  minimum, recognized or not but other than the number 0, is refused, both with the
  same 403; 401 and 403 are different answers. What the gate answers for an inherited
  name, or for a number that is no rank and not below the minimum, is not spoken of.
\<close>

theorem requireRole_failures:
  "(claims req = None \<or> (\<exists>c. claims req = Some c \<and> falsy (jwt_claims.role c)) \<longrightarrow>
      requireRole m req = Rejected 401 ''Missing authentication'') \<and>
   ((\<exists>c s. claims req = Some c \<and> jwt_claims.role c = JStr s \<and> s \<noteq> [] \<and>
        s \<notin> set (map fst adminAuth_ROLE_HIERARCHY) \<and> s \<notin> set inherited_names) \<longrightarrow>
      requireRole m req = Rejected 403 ''Access denied: insufficient privileges'') \<and>
   ((\<exists>c r. claims req = Some c \<and>
        rank_of adminAuth_ROLE_HIERARCHY (jwt_claims.role c) = RNum r \<and>
        r \<noteq> 0 \<and> r < role_number m) \<longrightarrow>
      requireRole m req = Rejected 403 ''Access denied: insufficient privileges'') \<and>
   Rejected 401 ''Missing authentication'' \<noteq>
     Rejected 403 ''Access denied: insufficient privileges''"
proof (intro conjI impI)
  assume "claims req = None \<or> (\<exists>c. claims req = Some c \<and> falsy (jwt_claims.role c))"
  then show "requireRole m req = Rejected 401 ''Missing authentication''"
    by (auto simp: requireRole_def)
next
  assume "\<exists>c s. claims req = Some c \<and> jwt_claims.role c = JStr s \<and> s \<noteq> [] \<and>
        s \<notin> set (map fst adminAuth_ROLE_HIERARCHY) \<and> s \<notin> set inherited_names"
  then obtain c s where h: "claims req = Some c" "jwt_claims.role c = JStr s" "s \<noteq> []"
      "s \<notin> set (map fst adminAuth_ROLE_HIERARCHY)" "s \<notin> set inherited_names"
    by blast
  have "map_of adminAuth_ROLE_HIERARCHY s = None"
    using h(4) by (simp add: map_of_eq_None_iff)
  then have "js_get adminAuth_ROLE_HIERARCHY s = RUndefined"
    using h(5) by (simp add: js_get_def inherited_names_def)
  then show "requireRole m req = Rejected 403 ''Access denied: insufficient privileges''"
    using h(1,2,3) by (simp add: requireRole_def rank_of_def)
next
  assume "\<exists>c r. claims req = Some c \<and>
        rank_of adminAuth_ROLE_HIERARCHY (jwt_claims.role c) = RNum r \<and>
        r \<noteq> 0 \<and> r < role_number m"
  then obtain c r where h: "claims req = Some c"
      "rank_of adminAuth_ROLE_HIERARCHY (jwt_claims.role c) = RNum r"
      "r \<noteq> 0" "r < role_number m"
    by blast
  have "\<not> falsy (jwt_claims.role c)" using h(2,3) by (rule middleware_rank_truthy)
  then show "requireRole m req = Rejected 403 ''Access denied: insufficient privileges''"
    using h by (simp add: requireRole_def minRank_role_number)
next
  show "Rejected 401 ''Missing authentication'' \<noteq>
          Rejected 403 ''Access denied: insufficient privileges''"
    by simp
qed

text \<open>
  No claims and an absent role are answered 401; the unknown name \<open>Guest\<close> and a
  Moderator by name are answered 403.
\<close>

theorem requireRole_failures_witness:
  "requireRole Admin ((sample_request (JNum 3) JUndefined (IdInt 2))\<lparr>claims := None\<rparr>) =
     Rejected 401 ''Missing authentication'' \<and>
   requireRole Admin (sample_request JUndefined JUndefined (IdInt 2)) =
     Rejected 401 ''Missing authentication'' \<and>
   requireRole Admin (sample_request (JStr ''Guest'') JUndefined (IdInt 2)) =
     Rejected 403 ''Access denied: insufficient privileges'' \<and>
   requireRole Admin (sample_request (JStr ''Moderator'') JUndefined (IdInt 2)) =
     Rejected 403 ''Access denied: insufficient privileges''"
proof -
  have a: "requireRole Admin ((sample_request (JNum 3) JUndefined (IdInt 2))\<lparr>claims := None\<rparr>) =
     Rejected 401 ''Missing authentication''"
    using requireRole_failures
            [of "(sample_request (JNum 3) JUndefined (IdInt 2))\<lparr>claims := None\<rparr>" Admin]
    by simp
  have b: "requireRole Admin (sample_request JUndefined JUndefined (IdInt 2)) =
     Rejected 401 ''Missing authentication''"
    using requireRole_failures [of "sample_request JUndefined JUndefined (IdInt 2)" Admin]
    by (simp add: sample_request_def)
  have c: "requireRole Admin (sample_request (JStr ''Guest'') JUndefined (IdInt 2)) =
     Rejected 403 ''Access denied: insufficient privileges''"
    using requireRole_failures [of "sample_request (JStr ''Guest'') JUndefined (IdInt 2)" Admin]
    by (simp add: sample_request_def adminAuth_ROLE_HIERARCHY_def inherited_names_def
        object_prototype_methods_def)
  have d: "requireRole Admin (sample_request (JStr ''Moderator'') JUndefined (IdInt 2)) =
     Rejected 403 ''Access denied: insufficient privileges''"
    using requireRole_failures [of "sample_request (JStr ''Moderator'') JUndefined (IdInt 2)" Admin]
    by (simp add: sample_request_def rank_of_def js_get_def adminAuth_ROLE_HIERARCHY_def)
  from a b c d show ?thesis by simp
qed

section \<open>One rank for the number and the name\<close>

text \<open>
  Claim C7. For each of the five roles, the number and the name resolve to the same
  rank, in the middleware's table and in the controller's table alike: 3 and \<open>Admin\<close>
  both give 3.
\<close>

theorem rank_same_for_number_and_name:
  "rank_of adminAuth_ROLE_HIERARCHY (JNum (role_number r)) = RNum (role_number r) \<and>
   rank_of adminAuth_ROLE_HIERARCHY (JStr (role_key r)) = RNum (role_number r) \<and>
   rank_of adminController_ROLE_HIERARCHY (JNum (role_number r)) = RNum (role_number r) \<and>
   rank_of adminController_ROLE_HIERARCHY (JStr (role_key r)) = RNum (role_number r) \<and>
   rank_of adminAuth_ROLE_HIERARCHY (JNum 3) = RNum 3 \<and>
   rank_of adminAuth_ROLE_HIERARCHY (JStr ''Admin'') = RNum 3"
  using minRank_role_number [of Admin]
  by (simp add: rank_of_def minRank_role_number controller_rank_role_number)

section \<open>Deleting a user\<close>

lemma map_unmatched_id:
  "k \<notin> set (map account.Account_ID rows) \<Longrightarrow>
   map (\<lambda>a. if account.Account_ID a = k then f a else a) rows = rows"
  by (induction rows) auto

lemma filter_unmatched_empty:
  "(filter (\<lambda>a. account.Account_ID a = k) rows = []) = (k \<notin> set (map account.Account_ID rows))"
  by (induction rows) auto

text \<open>
  Claim C10. \<open>deleteUser\<close> is a soft delete. For an id that is an integer of the column's
  range, no row of \<open>Account\<close> is removed or added; the row with that id gets the status
  \<open>inactive\<close> and the time of the call as \<open>Updated_At\<close> and keeps every other column;
  every other row, the credential rows and the verification codes are as before. When
  no row has the id the answer is 404 and the database is unchanged.
\<close>

theorem deleteUser_soft_delete:
  assumes "id req = IdInt k" and "int4_ok k"
  shows "Account_Credential (snd (deleteUser req now db)) = Account_Credential db \<and>
         verification_codes (snd (deleteUser req now db)) = verification_codes db \<and>
         list_all2
           (\<lambda>a a'. account.Account_ID a' = account.Account_ID a \<and> FirstName a' = FirstName a \<and>
                   LastName a' = LastName a \<and> Username a' = Username a \<and> Email a' = Email a \<and>
                   Email_Verified a' = Email_Verified a \<and> Phone a' = Phone a \<and>
                   Phone_Verified a' = Phone_Verified a \<and> Account_Role a' = Account_Role a \<and>
                   Created_At a' = Created_At a \<and>
                   (if account.Account_ID a = k
                    then Account_Status a' = ''inactive'' \<and> Updated_At a' = now
                    else a' = a))
           (Account db) (Account (snd (deleteUser req now db))) \<and>
         (if k \<in> set (map account.Account_ID (Account db))
          then fst (deleteUser req now db) = SendSuccess ''User deleted successfully'' None
          else deleteUser req now db = (SendError 404 ''User not found'', db))"
proof -
  let ?upd = "\<lambda>a. a\<lparr>Account_Status := ''inactive'', Updated_At := now\<rparr>"
  let ?rows = "map (\<lambda>a. if account.Account_ID a = k then ?upd a else a) (Account db)"
  have run: "update_Account_Status_inactive (id req) now db =
      Inr (map account.Account_ID (filter (\<lambda>a. account.Account_ID a = k) (Account db)),
           db\<lparr>Account := ?rows\<rparr>)"
    using assms by (simp add: update_Account_Status_inactive_def)
  have db': "snd (deleteUser req now db) = db\<lparr>Account := ?rows\<rparr>"
    by (simp add: deleteUser_def run)
  have rows: "list_all2
           (\<lambda>a a'. account.Account_ID a' = account.Account_ID a \<and> FirstName a' = FirstName a \<and>
                   LastName a' = LastName a \<and> Username a' = Username a \<and> Email a' = Email a \<and>
                   Email_Verified a' = Email_Verified a \<and> Phone a' = Phone a \<and>
                   Phone_Verified a' = Phone_Verified a \<and> Account_Role a' = Account_Role a \<and>
                   Created_At a' = Created_At a \<and>
                   (if account.Account_ID a = k
                    then Account_Status a' = ''inactive'' \<and> Updated_At a' = now
                    else a' = a))
           (Account db) ?rows"
    by (simp add: list_all2_map2 list_all2_same)
  have found: "k \<in> set (map account.Account_ID (Account db)) \<Longrightarrow>
      fst (deleteUser req now db) = SendSuccess ''User deleted successfully'' None"
    using filter_unmatched_empty [of k "Account db"] by (simp add: deleteUser_def run)
  have missing: "k \<notin> set (map account.Account_ID (Account db)) \<Longrightarrow>
      deleteUser req now db = (SendError 404 ''User not found'', db)"
    using filter_unmatched_empty [of k "Account db"] map_unmatched_id [of k "Account db" ?upd]
    by (simp add: deleteUser_def run)
  show ?thesis
    using rows found missing by (simp add: db')
qed

text \<open>Deleting account 2 changes its status and update time only; account 9 is not found.\<close>

theorem deleteUser_soft_delete_witness:
  "deleteUser (sample_request (JNum 3) JUndefined (IdInt 2)) 77 sample_db =
     (SendSuccess ''User deleted successfully'' None,
      sample_db\<lparr>Account := [alice, bob\<lparr>Account_Status := ''inactive'', Updated_At := 77\<rparr>]\<rparr>) \<and>
   deleteUser (sample_request (JNum 3) JUndefined (IdInt 9)) 77 sample_db =
     (SendError 404 ''User not found'', sample_db)"
proof -
  have i2: "id (sample_request (JNum 3) JUndefined (IdInt 2)) = IdInt 2"
   and i9: "id (sample_request (JNum 3) JUndefined (IdInt 9)) = IdInt 9"
    by (simp_all add: sample_request_def)
  have ok: "int4_ok 2" "int4_ok 9" by (simp_all add: int4_ok_def)
  have miss: "deleteUser (sample_request (JNum 3) JUndefined (IdInt 9)) 77 sample_db =
     (SendError 404 ''User not found'', sample_db)"
    using deleteUser_soft_delete [OF i9 ok(2), of 77 sample_db]
    by (simp add: sample_db_def alice_def bob_def)
  have hit: "fst (deleteUser (sample_request (JNum 3) JUndefined (IdInt 2)) 77 sample_db) =
      SendSuccess ''User deleted successfully'' None"
    using deleteUser_soft_delete [OF i2 ok(1), of 77 sample_db]
    by (simp add: sample_db_def alice_def bob_def)
  have db: "snd (deleteUser (sample_request (JNum 3) JUndefined (IdInt 2)) 77 sample_db) =
      sample_db\<lparr>Account := [alice, bob\<lparr>Account_Status := ''inactive'', Updated_At := 77\<rparr>]\<rparr>"
    by (simp add: deleteUser_def update_Account_Status_inactive_def sample_request_def
        int4_ok_def sample_db_def alice_def bob_def)
  from hit db miss show ?thesis by (simp add: prod_eq_iff)
qed

section \<open>What the table of verification codes holds\<close>

text \<open>
  Claim C8, as stated, has the store hold password-reset records whose secret is an
  opaque string token. The table refuses a third code type even with a six-digit code,
  refuses a six-character token that is not all digits, and refuses a longer token.
\<close>

theorem reset_token_refused_by_table:
  "insert_verification_codes 1 ''reset'' ''123456'' 9000 100 sample_db =
     (Inl CheckViolation, sample_db\<lparr>verification_codes_seq := 2\<rparr>) \<and>
   insert_verification_codes 1 ''email'' ''f3a9c1'' 9000 100 sample_db =
     (Inl CheckViolation, sample_db\<lparr>verification_codes_seq := 2\<rparr>) \<and>
   insert_verification_codes 1 ''email'' ''9f86d081884c7d659a2feaa0c55ad015'' 9000 100 sample_db =
     (Inl StringTooLong, sample_db)"
  by (simp add: insert_verification_codes_def varchar_def code_type_check_def valid_code_def
      is_digit_def sample_db_def)

text \<open>
  Claim C8, amended. Every row the table accepts has the code type \<open>email\<close> or \<open>phone\<close>
  and a code of exactly six decimal digits, so a password-reset record with an opaque
  token is not among its rows.
\<close>

theorem verification_codes_email_phone_digits:
  assumes "insert_verification_codes aid ctype cd expires now db = (Inr v, db')"
  shows "(code_type v = ''email'' \<or> code_type v = ''phone'') \<and>
         length (code v) = 6 \<and> list_all is_digit (code v) \<and>
         verification_codes db' = verification_codes db @ [v]"
  using assms
  by (auto simp: insert_verification_codes_def Let_def code_type_check_def valid_code_def
      split: sum.splits if_splits)

theorem verification_codes_email_phone_digits_witness:
  "insert_verification_codes 2 ''phone'' ''004217'' 9000 100 sample_db =
     (Inr \<lparr> code_id = 1, account_id = 2, code_type = ''phone'', code = ''004217'',
            expires_at = 9000, attempts = 0, created_at = 100, used_at = None \<rparr>,
      sample_db\<lparr>verification_codes :=
                  [\<lparr> code_id = 1, account_id = 2, code_type = ''phone'', code = ''004217'',
                     expires_at = 9000, attempts = 0, created_at = 100, used_at = None \<rparr>],
                verification_codes_seq := 2\<rparr>) \<and>
   list_all is_digit ''004217''"
proof -
  let ?v = "\<lparr> code_id = 1, account_id = 2, code_type = ''phone'', code = ''004217'',
              expires_at = 9000, attempts = 0, created_at = 100, used_at = None \<rparr>"
  have r: "insert_verification_codes 2 ''phone'' ''004217'' 9000 100 sample_db =
      (Inr ?v, sample_db\<lparr>verification_codes := [?v], verification_codes_seq := 2\<rparr>)"
    by (simp add: insert_verification_codes_def Let_def varchar_def code_type_check_def
        valid_code_def is_digit_def sample_db_def alice_def bob_def)
  from verification_codes_email_phone_digits [OF r] r show ?thesis
    by simp
qed

section \<open>One active record for each subject and purpose\<close>

lemma active_mono: "now \<le> t \<Longrightarrow> active t r \<Longrightarrow> active now r"
  by (auto simp: active_def)

lemma distinct_map_count:
  "distinct (map f xs) = (\<forall>k. length (filter (\<lambda>x. f x = k) xs) \<le> 1)"
proof (induction xs)
  case Nil
  then show ?case by simp
next
  case (Cons x xs)
  have none: "(f x \<notin> f ` set xs) = (filter (\<lambda>y. f y = f x) xs = [])"
  proof -
    have "(f x \<in> f ` set xs) = (\<exists>y\<in>set xs. f y = f x)" by (metis image_iff)
    then show ?thesis by (simp add: filter_empty_conv)
  qed
  show ?case
  proof
    assume d: "distinct (map f (x # xs))"
    then have "\<forall>k. length (filter (\<lambda>y. f y = k) xs) \<le> 1" and "filter (\<lambda>y. f y = f x) xs = []"
      using Cons.IH none by auto
    then show "\<forall>k. length (filter (\<lambda>y. f y = k) (x # xs)) \<le> 1"
      by auto
  next
    assume c: "\<forall>k. length (filter (\<lambda>y. f y = k) (x # xs)) \<le> 1"
    then have "length (filter (\<lambda>y. f y = f x) (x # xs)) \<le> 1" by blast
    then have e: "filter (\<lambda>y. f y = f x) xs = []" by simp
    have "\<forall>k. length (filter (\<lambda>y. f y = k) xs) \<le> 1"
    proof
      fix k
      from c have "length (filter (\<lambda>y. f y = k) (x # xs)) \<le> 1" by blast
      then show "length (filter (\<lambda>y. f y = k) xs) \<le> 1" by (simp split: if_splits)
    qed
    then show "distinct (map f (x # xs))"
      using Cons.IH e none by simp
  qed
qed

lemma one_active_per_key_count:
  "one_active_per_key t store =
     (\<forall>s p. length (filter (\<lambda>r. record_key r = (s, p) \<and> active t r) store) \<le> 1)"
proof -
  have "\<And>k. filter (\<lambda>r. record_key r = k) (filter (active t) store) =
            filter (\<lambda>r. record_key r = k \<and> active t r) store"
    by (simp add: conj_commute)
  then show ?thesis
    by (simp add: one_active_per_key_def distinct_map_count [of record_key] del: filter_filter)
qed

text \<open>
  Claim C4. If the store has at most one active record for each (subjectId, purpose),
  then after \<open>issue\<close> at time \<open>now\<close> with a positive time to live it still has, at \<open>now\<close>
  and at every later time; the only record of the issued pair that is active at \<open>now\<close> is
  the new one; and the records of every other pair, another purpose of the same subject
  among them, are exactly those of before.
\<close>

theorem issue_keeps_one_active_per_key:
  assumes "one_active_per_key now store" and "0 < ttl" and "now \<le> t"
  shows "one_active_per_key t (snd (issue s p sec ttl now store)) \<and>
         (\<forall>s' p'. length (filter (\<lambda>r. record_key r = (s', p') \<and> active t r)
                            (snd (issue s p sec ttl now store))) \<le> 1) \<and>
         filter (\<lambda>r. record_key r = (s, p) \<and> active now r) (snd (issue s p sec ttl now store)) =
           [fst (issue s p sec ttl now store)] \<and>
         filter (\<lambda>r. record_key r \<noteq> (s, p)) (snd (issue s p sec ttl now store)) =
           filter (\<lambda>r. record_key r \<noteq> (s, p)) store"
proof -
  let ?new = "\<lparr> subjectId = s, purpose = p, secret = sec, issuedAt = now,
                expiresAt = now + ttl, attempts = 0, consumedAt = None \<rparr>"
  let ?kept = "filter (\<lambda>r. \<not> (record_key r = (s, p) \<and> active now r)) store"
  have res: "issue s p sec ttl now store = (?new, ?kept @ [?new])"
    by (simp add: issue_def Let_def)
  have knew: "record_key ?new = (s, p)" by (simp add: record_key_def)
  have anew: "active now ?new" using assms(2) by (simp add: active_def)
  have sub: "filter (active t) ?kept =
      filter (\<lambda>r. \<not> record_key r = (s, p)) (filter (active t) (filter (active now) store))"
    using active_mono [OF assms(3)] by (auto intro: filter_cong)
  have d0: "distinct (map record_key (filter (active now) store))"
    using assms(1) by (simp add: one_active_per_key_def)
  have d1: "distinct (map record_key (filter (active t) ?kept))"
    unfolding sub by (intro distinct_map_filter d0)
  have fresh: "(s, p) \<notin> record_key ` set (filter (active t) ?kept)"
    unfolding sub by auto
  have inv: "one_active_per_key t (?kept @ [?new])"
    using d1 fresh knew by (auto simp: one_active_per_key_def)
  have one: "filter (\<lambda>r. record_key r = (s, p) \<and> active now r) (?kept @ [?new]) = [?new]"
    using knew anew by (auto simp: filter_empty_conv)
  have others: "filter (\<lambda>r. record_key r \<noteq> (s, p)) (?kept @ [?new]) =
      filter (\<lambda>r. record_key r \<noteq> (s, p)) store"
    using knew by (auto intro: filter_cong)
  have cnt: "\<forall>s' p'. length (filter (\<lambda>r. record_key r = (s', p') \<and> active t r)
                                  (?kept @ [?new])) \<le> 1"
    by (rule iffD1 [OF one_active_per_key_count inv])
  show ?thesis
    unfolding res snd_conv fst_conv using inv cnt one others by blast
qed

text \<open>
  Subject 42 holds an active email code and an active phone code; issuing a new email
  code leaves the phone record and the new email record.
\<close>

theorem issue_keeps_one_active_per_key_witness:
  "snd (issue 42 EmailVerify ''731905'' 600 100
          [sample_record 42 EmailVerify ''118204'', sample_record 42 PhoneVerify ''550923'']) =
     [sample_record 42 PhoneVerify ''550923'', fst (issue 42 EmailVerify ''731905'' 600 100
          [sample_record 42 EmailVerify ''118204'', sample_record 42 PhoneVerify ''550923''])] \<and>
   one_active_per_key 100 (snd (issue 42 EmailVerify ''731905'' 600 100
          [sample_record 42 EmailVerify ''118204'', sample_record 42 PhoneVerify ''550923'']))"
proof -
  let ?store = "[sample_record 42 EmailVerify ''118204'', sample_record 42 PhoneVerify ''550923'']"
  have h: "one_active_per_key 100 ?store"
    by (simp add: one_active_per_key_def sample_record_def active_def record_key_def)
  have e: "snd (issue 42 EmailVerify ''731905'' 600 100 ?store) =
     [sample_record 42 PhoneVerify ''550923'', fst (issue 42 EmailVerify ''731905'' 600 100 ?store)]"
    by (simp add: issue_def Let_def sample_record_def active_def record_key_def)
  from issue_keeps_one_active_per_key [OF h, of 600 100 42 EmailVerify "''731905''"] e
  show ?thesis by simp
qed

end
